theory Spec2Isabelle
  imports Complex_Main
begin

section \<open>JavaScript strings\<close>

text \<open>
  A string is a list of 8-bit characters, read as the code units U+0000 to U+00FF.
  The functions below are the built-ins of \<^verbatim>\<open>String.prototype\<close> and the character
  classes of regular expressions that \<^verbatim>\<open>background.js\<close> and \<^verbatim>\<open>content.js\<close> call,
  restricted to that alphabet.
\<close>

definition code :: "char \<Rightarrow> nat" where
  "code c = of_char c"


definition is_alpha :: "char \<Rightarrow> bool" where
  "is_alpha c = ((65 \<le> code c \<and> code c \<le> 90) \<or> (97 \<le> code c \<and> code c \<le> 122))"

definition is_digit :: "char \<Rightarrow> bool" where
  "is_digit c = (48 \<le> code c \<and> code c \<le> 57)"


text \<open>\<^verbatim>\<open>\s\<close> and the characters \<^verbatim>\<open>trim\<close> removes: tab, line feed, vertical tab,
  form feed, carriage return, space and no-break space.\<close>

definition is_space :: "char \<Rightarrow> bool" where
  "is_space c = ((9 \<le> code c \<and> code c \<le> 13) \<or> code c = 32 \<or> code c = 160)"

text \<open>The characters \<^verbatim>\<open>.\<close> does not match: line feed and carriage return.\<close>

definition is_line_terminator :: "char \<Rightarrow> bool" where
  "is_line_terminator c = (code c = 10 \<or> code c = 13)"

text \<open>\<^verbatim>\<open>toLowerCase\<close>: A to Z, and U+00C0 to U+00DE except the multiplication sign,
  move up by 32.\<close>

definition lower_char :: "char \<Rightarrow> char" where
  "lower_char c =
     (if (65 \<le> code c \<and> code c \<le> 90) \<or> (192 \<le> code c \<and> code c \<le> 222 \<and> code c \<noteq> 215)
      then char_of (code c + 32) else c)"

definition toLowerCase :: "string \<Rightarrow> string" where
  "toLowerCase s = map lower_char s"

definition trim :: "string \<Rightarrow> string" where
  "trim s = rev (dropWhile is_space (rev (dropWhile is_space s)))"

definition startsWith :: "string \<Rightarrow> string \<Rightarrow> bool" where
  "startsWith s sub = (take (length sub) s = sub)"

primrec str_includes :: "string \<Rightarrow> string \<Rightarrow> bool" where
  "str_includes [] sub = (sub = [])"
| "str_includes (c # cs) sub = (startsWith (c # cs) sub \<or> str_includes cs sub)"

text \<open>A value that may be \<^verbatim>\<open>null\<close> or \<^verbatim>\<open>undefined\<close> is an option. A string is
  falsy when it is absent or empty.\<close>

definition truthy_str :: "string option \<Rightarrow> bool" where
  "truthy_str v = (case v of None \<Rightarrow> False | Some s \<Rightarrow> s \<noteq> [])"

text \<open>\<^verbatim>\<open>a || b\<close> on strings that may be absent.\<close>

definition or_str :: "string option \<Rightarrow> string option \<Rightarrow> string option" where
  "or_str a b = (if truthy_str a then a else b)"

section \<open>Parsing Authentication-Results\<close>

datatype verdict = Pass | Fail | Unknown

record auth_verdict =
  spf :: verdict
  dkim :: verdict
  dmarc :: verdict
  raw :: string

text \<open>\<^verbatim>\<open>parseAuthResults\<close>. The argument is \<open>None\<close> when the caller passes a value that
  is not a string; \<^verbatim>\<open>null\<close> verdicts are \<open>Unknown\<close>.\<close>

definition parseAuthResults :: "string option \<Rightarrow> auth_verdict" where
  "parseAuthResults authHeader =
     (if \<not> truthy_str authHeader
      then \<lparr>spf = Unknown, dkim = Unknown, dmarc = Unknown, raw = []\<rparr>
      else
        let lower = toLowerCase (the authHeader) in
        \<lparr>spf = (if str_includes lower ''spf=pass'' then Pass
                else if str_includes lower ''spf=fail'' then Fail else Unknown),
         dkim = (if str_includes lower ''dkim=pass'' then Pass
                 else if str_includes lower ''dkim=fail'' then Fail else Unknown),
         dmarc = (if str_includes lower ''dmarc=pass'' then Pass
                  else if str_includes lower ''dmarc=fail'' then Fail else Unknown),
         raw = the authHeader\<rparr>)"

section \<open>Numbers\<close>

text \<open>
  A JavaScript number is a rational, an infinity or \<^verbatim>\<open>NaN\<close>. The arithmetic is exact:
  the rounding of a result to the nearest double and the sign of zero are left out. A
  result of the model is the result of the code wherever every intermediate value is a
  double, as it is for the integer scores and trusts of the handlers; for other inputs the
  two may differ where the exact sum lies at a rounding boundary.
\<close>

datatype jsnum = Fin rat | PInf | NInf | NaN

fun js_neg :: "jsnum \<Rightarrow> jsnum" where
  "js_neg (Fin a) = Fin (- a)"
| "js_neg PInf = NInf"
| "js_neg NInf = PInf"
| "js_neg NaN = NaN"

fun js_add :: "jsnum \<Rightarrow> jsnum \<Rightarrow> jsnum" where
  "js_add NaN y = NaN"
| "js_add x NaN = NaN"
| "js_add (Fin a) (Fin b) = Fin (a + b)"
| "js_add (Fin a) y = y"
| "js_add x (Fin b) = x"
| "js_add PInf PInf = PInf"
| "js_add NInf NInf = NInf"
| "js_add PInf NInf = NaN"
| "js_add NInf PInf = NaN"

fun js_mul :: "jsnum \<Rightarrow> jsnum \<Rightarrow> jsnum" where
  "js_mul NaN y = NaN"
| "js_mul x NaN = NaN"
| "js_mul (Fin a) (Fin b) = Fin (a * b)"
| "js_mul (Fin a) y = (if a = 0 then NaN else if 0 < a then y else js_neg y)"
| "js_mul x (Fin b) = (if b = 0 then NaN else if 0 < b then x else js_neg x)"
| "js_mul PInf PInf = PInf"
| "js_mul NInf NInf = PInf"
| "js_mul PInf NInf = NInf"
| "js_mul NInf PInf = NInf"

text \<open>\<^verbatim>\<open>x <= y\<close> on numbers; false when either is \<^verbatim>\<open>NaN\<close>.\<close>

fun js_le :: "jsnum \<Rightarrow> jsnum \<Rightarrow> bool" where
  "js_le NaN y = False"
| "js_le x NaN = False"
| "js_le (Fin a) (Fin b) = (a \<le> b)"
| "js_le NInf y = True"
| "js_le x PInf = True"
| "js_le x y = False"

text \<open>\<^verbatim>\<open>Math.round\<close> rounds a half up.\<close>

fun Math_round :: "jsnum \<Rightarrow> jsnum" where
  "Math_round (Fin a) = Fin (of_int \<lfloor>a + 1 / 2\<rfloor>)"
| "Math_round x = x"

fun Math_min :: "jsnum \<Rightarrow> jsnum \<Rightarrow> jsnum" where
  "Math_min NaN y = NaN"
| "Math_min x NaN = NaN"
| "Math_min x y = (if js_le x y then x else y)"

fun Math_max :: "jsnum \<Rightarrow> jsnum \<Rightarrow> jsnum" where
  "Math_max NaN y = NaN"
| "Math_max x NaN = NaN"
| "Math_max x y = (if js_le x y then y else x)"

text \<open>A number is falsy when it is 0 or \<^verbatim>\<open>NaN\<close>.\<close>

fun truthy_num :: "jsnum \<Rightarrow> bool" where
  "truthy_num (Fin a) = (a \<noteq> 0)"
| "truthy_num NaN = False"
| "truthy_num x = True"

text \<open>The integer of a number that holds one.\<close>

fun num_int :: "jsnum \<Rightarrow> int" where
  "num_int (Fin a) = \<lfloor>a\<rfloor>"
| "num_int x = 0"

text \<open>The values a field of the reply of the backend may hold; \<open>JObject\<close> is any object
  or array.\<close>

datatype jsval = JUndefined | JNull | JBool bool | JNumber jsnum | JString string | JObject

fun truthy :: "jsval \<Rightarrow> bool" where
  "truthy JUndefined = False"
| "truthy JNull = False"
| "truthy (JBool b) = b"
| "truthy (JNumber n) = truthy_num n"
| "truthy (JString s) = (s \<noteq> [])"
| "truthy JObject = True"

text \<open>
  \<^verbatim>\<open>parseFloat\<close>: white space, then the longest prefix that is a decimal literal (a sign,
  \<^verbatim>\<open>Infinity\<close> or digits with an optional fraction and exponent); \<^verbatim>\<open>NaN\<close> when there is
  none. A literal from \<open>2 ^ 1024 - 2 ^ 970\<close> on, the first value that rounds above the
  largest double, is an infinity.
\<close>

definition double_overflow :: rat where
  "double_overflow = 2 ^ 1024 - 2 ^ 970"

definition digit_val :: "char \<Rightarrow> nat" where
  "digit_val c = code c - 48"

definition digits_val :: "string \<Rightarrow> nat" where
  "digits_val ds = foldl (\<lambda>n c. 10 * n + digit_val c) 0 ds"

text \<open>The exponent part at the head of \<open>s\<close>, as a power of ten; 1 when there is none.\<close>

definition exponent_factor :: "string \<Rightarrow> rat" where
  "exponent_factor s =
     (case s of
        [] \<Rightarrow> 1
      | e # r \<Rightarrow>
          if e = CHR ''e'' \<or> e = CHR ''E'' then
            (let neg = startsWith r ''-'';
                 r' = (if startsWith r ''+'' \<or> startsWith r ''-'' then drop 1 r else r);
                 ds = takeWhile is_digit r'
             in if ds = [] then 1
                else if neg then 1 / 10 ^ digits_val ds else 10 ^ digits_val ds)
          else 1)"

definition parseFloat :: "string \<Rightarrow> jsnum" where
  "parseFloat str =
     (let s = dropWhile is_space str;
          neg = startsWith s ''-'';
          s = (if startsWith s ''+'' \<or> startsWith s ''-'' then drop 1 s else s)
      in if startsWith s ''Infinity'' then (if neg then NInf else PInf)
         else
           let ip = takeWhile is_digit s;
               r = drop (length ip) s;
               fp = (if startsWith r ''.'' then takeWhile is_digit (drop 1 r) else []);
               r' = (if startsWith r ''.'' \<and> (ip \<noteq> [] \<or> fp \<noteq> [])
                     then drop (1 + length fp) r else r)
           in if ip = [] \<and> fp = [] then NaN
              else
                let v = (of_nat (digits_val ip) + of_nat (digits_val fp) / 10 ^ length fp)
                        * exponent_factor r'
                in if double_overflow \<le> v then (if neg then NInf else PInf)
                   else Fin (if neg then - v else v))"

section \<open>Trusted sender history\<close>

text \<open>
  \<^verbatim>\<open>chrome.storage.local\<close> holds the object \<^verbatim>\<open>trustedSenders\<close>, from a domain to
  \<^verbatim>\<open>{ count, last }\<close>. The handlers read it back as a plain object, so that
  \<^verbatim>\<open>map[domain]\<close> finds an own key of the stored object and, for a name that a plain
  object inherits from \<^verbatim>\<open>Object.prototype\<close>, the inherited value: a built-in function,
  or \<^verbatim>\<open>Object.prototype\<close> itself under \<^verbatim>\<open>__proto__\<close>. What
  \<^verbatim>\<open>addTrustedSenderDomain\<close> writes on an inherited value stays on it while the worker
  lives, and a function without the field inherits it from \<^verbatim>\<open>Object.prototype\<close>.

  The state is therefore the own keys of the stored object (\<open>stored\<close>), the fields written
  on \<^verbatim>\<open>Object.prototype\<close> (\<open>on_prototype\<close>) and the fields written on the built-in
  function of a name (\<open>on_function\<close>). \<^verbatim>\<open>count\<close> is a natural number, since
  \<^verbatim>\<open>addTrustedSenderDomain\<close> is the only writer and starts it at 0.
\<close>

record trust_record =
  count :: nat
  last :: int

record ledger =
  stored :: "string \<rightharpoonup> trust_record"
  on_prototype :: "trust_record option"
  on_function :: "string \<rightharpoonup> trust_record"

text \<open>The store without a record, in a worker that has written nothing on the inherited
  values.\<close>

definition no_history :: ledger where
  "no_history = \<lparr>stored = Map.empty, on_prototype = None, on_function = Map.empty\<rparr>"

text \<open>The names of the functions that a plain object inherits.\<close>

definition prototype_functions :: "string list" where
  "prototype_functions =
     [''constructor'', ''__defineGetter__'', ''__defineSetter__'', ''hasOwnProperty'',
      ''__lookupGetter__'', ''__lookupSetter__'', ''isPrototypeOf'', ''propertyIsEnumerable'',
      ''toString'', ''valueOf'', ''toLocaleString'']"

text \<open>
  \<^verbatim>\<open>map[domain]\<close>: \<^verbatim>\<open>undefined\<close>, or the value found, given by the fields \<^verbatim>\<open>count\<close> and
  \<^verbatim>\<open>last\<close> that it holds (\<open>None\<close> when it holds none). Every value found is an object
  or a function, and so truthy.
\<close>

datatype property = Undefined | Found "trust_record option"

definition lookup :: "ledger \<Rightarrow> string \<Rightarrow> property" where
  "lookup m d =
     (case stored m d of
        Some r \<Rightarrow> Found (Some r)
      | None \<Rightarrow>
          if d = ''__proto__'' then Found (on_prototype m)
          else if d \<in> set prototype_functions
          then Found (case on_function m d of Some r \<Rightarrow> Some r | None \<Rightarrow> on_prototype m)
          else Undefined)"

text \<open>An assignment to the fields of \<^verbatim>\<open>map[domain]\<close>, for a value that is found: on the
  own record, on \<^verbatim>\<open>Object.prototype\<close> or on the inherited function.\<close>

definition assign :: "ledger \<Rightarrow> string \<Rightarrow> trust_record \<Rightarrow> ledger" where
  "assign m d r =
     (if stored m d \<noteq> None then m\<lparr>stored := (stored m)(d \<mapsto> r)\<rparr>
      else if d = ''__proto__'' then m\<lparr>on_prototype := Some r\<rparr>
      else m\<lparr>on_function := (on_function m)(d \<mapsto> r)\<rparr>)"

definition TRUST_BOOST_FROM_HISTORY :: int where
  "TRUST_BOOST_FROM_HISTORY = 25"

text \<open>\<^verbatim>\<open>addTrustedSenderDomain(domain)\<close> at time \<open>now\<close>; the read and the write of the store
  run as one step. The write stores the own keys of the object.\<close>

definition addTrustedSenderDomain :: "ledger \<Rightarrow> string option \<Rightarrow> int \<Rightarrow> ledger" where
  "addTrustedSenderDomain m domain now =
     (if \<not> truthy_str domain then m
      else
        let d = the domain;
            m = (if lookup m d = Undefined
                 then m\<lparr>stored := (stored m)(d \<mapsto> \<lparr>count = 0, last = now\<rparr>)\<rparr> else m);
            c = (case lookup m d of Found (Some r) \<Rightarrow> count r | _ \<Rightarrow> 0)
        in assign m d \<lparr>count = c + 1, last = now\<rparr>)"

text \<open>\<^verbatim>\<open>getTrustedSenderBoost(domain)\<close>: the value the promise resolves to. A value without
  the field \<^verbatim>\<open>count\<close> gives \<^verbatim>\<open>undefined * 5\<close>, which is \<^verbatim>\<open>NaN\<close>.\<close>

definition getTrustedSenderBoost :: "ledger \<Rightarrow> string option \<Rightarrow> jsnum" where
  "getTrustedSenderBoost m domain =
     (if \<not> truthy_str domain then Fin 0
      else case lookup m (the domain) of
             Undefined \<Rightarrow> Fin 0
           | Found rec \<Rightarrow>
               Math_min (Fin (of_int TRUST_BOOST_FROM_HISTORY))
                 (js_mul (case rec of None \<Rightarrow> NaN | Some r \<Rightarrow> Fin (of_nat (count r))) (Fin 5)))"

text \<open>The ledger after \<open>n\<close> calls of \<^verbatim>\<open>addTrustedSenderDomain(domain)\<close>, at the times
  \<open>nows\<close>.\<close>

primrec recordSafe_times :: "ledger \<Rightarrow> string option \<Rightarrow> int list \<Rightarrow> ledger" where
  "recordSafe_times m domain [] = m"
| "recordSafe_times m domain (now # nows) =
     recordSafe_times (addTrustedSenderDomain m domain now) domain nows"

section \<open>Caching helpers\<close>

definition CACHE_TTL_MS :: int where
  "CACHE_TTL_MS = 1000 * 60 * 10"

definition QUERY_CACHE_TTL_MS :: int where
  "QUERY_CACHE_TTL_MS = 1000 * 60 * 5"

record 'v cache_entry =
  ts :: int
  data :: 'v
  ttl :: int

type_synonym ('k, 'v) cache = "'k \<rightharpoonup> 'v cache_entry"

text \<open>\<^verbatim>\<open>cacheSet(cacheMap, key, data, ttl)\<close> when \<^verbatim>\<open>Date.now()\<close> is \<open>now\<close>.\<close>

definition cacheSet :: "('k, 'v) cache \<Rightarrow> 'k \<Rightarrow> 'v \<Rightarrow> int \<Rightarrow> int \<Rightarrow> ('k, 'v) cache" where
  "cacheSet cacheMap key d t now = cacheMap(key \<mapsto> \<lparr>ts = now, data = d, ttl = t\<rparr>)"

text \<open>\<^verbatim>\<open>cacheGet(cacheMap, key)\<close> when \<^verbatim>\<open>Date.now()\<close> is \<open>now\<close>: the value returned
  (\<open>None\<close> for \<^verbatim>\<open>null\<close>) and the map afterwards. \<^verbatim>\<open>v.ttl || CACHE_TTL_MS\<close> takes the
  default when the stored ttl is 0.\<close>

definition cacheGet :: "('k, 'v) cache \<Rightarrow> 'k \<Rightarrow> int \<Rightarrow> 'v option \<times> ('k, 'v) cache" where
  "cacheGet cacheMap key now =
     (case cacheMap key of
        None \<Rightarrow> (None, cacheMap)
      | Some v \<Rightarrow>
          if now - ts v > (if ttl v \<noteq> 0 then ttl v else CACHE_TTL_MS)
          then (None, cacheMap(key := None))
          else (Some (data v), cacheMap))"

section \<open>Regular expressions\<close>

text \<open>
  A pattern maps the text at the current position to the texts that may remain after a
  match there, in the order in which the backtracking matcher of JavaScript tries them:
  a greedy repetition offers the longest repetition first.
\<close>

type_synonym rx = "string \<Rightarrow> string list"

definition rx_fail :: rx where
  "rx_fail s = []"

text \<open>A literal, compared as it is.\<close>

definition rx_lit :: "string \<Rightarrow> rx" where
  "rx_lit w s = (if startsWith s w then [drop (length w) s] else [])"

text \<open>A literal of lower-case letters and signs under the flag \<^verbatim>\<open>i\<close>.\<close>

definition rx_lit_ci :: "string \<Rightarrow> rx" where
  "rx_lit_ci w s =
     (if length w \<le> length s \<and> toLowerCase (take (length w) s) = w
      then [drop (length w) s] else [])"


text \<open>\<^verbatim>\<open>[class]{lo,hi}\<close>, greedy; \<open>hi = None\<close> for no upper bound, so that
  \<^verbatim>\<open>*\<close> is \<open>rx_rep P 0 None\<close> and \<^verbatim>\<open>+\<close> is \<open>rx_rep P 1 None\<close>.\<close>

definition rx_rep :: "(char \<Rightarrow> bool) \<Rightarrow> nat \<Rightarrow> nat option \<Rightarrow> rx" where
  "rx_rep P lo hi s =
     (let m = length (takeWhile P s);
          top = (case hi of None \<Rightarrow> m | Some h \<Rightarrow> min h m)
      in map (\<lambda>n. drop n s) (rev [lo ..< Suc top]))"

definition rx_seq :: "rx \<Rightarrow> rx \<Rightarrow> rx" where
  "rx_seq p q s = concat (map q (p s))"

definition rx_alt :: "rx \<Rightarrow> rx \<Rightarrow> rx" where
  "rx_alt p q s = p s @ q s"

definition rx_alts :: "rx list \<Rightarrow> rx" where
  "rx_alts ps = foldr rx_alt ps rx_fail"


text \<open>\<^verbatim>\<open>$\<close> without the flag \<^verbatim>\<open>m\<close>: the end of the input.\<close>

definition rx_end :: rx where
  "rx_end s = (if s = [] then [s] else [])"



text \<open>The first position, from the left, at which \<open>f\<close> offers a result, and the first
  result there; \<open>f\<close> sees the character before the position.\<close>

primrec find_first :: "(char option \<Rightarrow> string \<Rightarrow> 'a list) \<Rightarrow> char option \<Rightarrow> string \<Rightarrow> 'a option" where
  "find_first f prev [] = (case f prev [] of [] \<Rightarrow> None | x # xs \<Rightarrow> Some x)"
| "find_first f prev (c # cs) =
     (case f prev (c # cs) of [] \<Rightarrow> find_first f (Some c) cs | x # xs \<Rightarrow> Some x)"

text \<open>\<^verbatim>\<open>regex.test(s)\<close>, and the same for a pattern that starts with \<^verbatim>\<open>\b\<close> before a
  word character.\<close>

definition rx_test :: "rx \<Rightarrow> string \<Rightarrow> bool" where
  "rx_test p s = (find_first (\<lambda>prev t. p t) None s \<noteq> None)"


text \<open>\<^verbatim>\<open>s.match(regex)[0]\<close> without the flag \<^verbatim>\<open>g\<close>: the text of the leftmost match.\<close>

definition rx_match0 :: "rx \<Rightarrow> string \<Rightarrow> string option" where
  "rx_match0 p s =
     find_first (\<lambda>prev t. map (\<lambda>r. take (length t - length r) t) (p t)) None s"


text \<open>\<^verbatim>\<open>/[A-Z0-9._%+-]+@[A-Z0-9.-]+\.[A-Z]{2,}/i\<close>\<close>

definition rx_email :: rx where
  "rx_email =
     rx_seq (rx_rep (\<lambda>c. is_alpha c \<or> is_digit c \<or> c \<in> set ''._%+-'') 1 None)
    (rx_seq (rx_lit ''@'')
    (rx_seq (rx_rep (\<lambda>c. is_alpha c \<or> is_digit c \<or> c \<in> set ''.-'') 1 None)
    (rx_seq (rx_lit ''.'')
            (rx_rep is_alpha 2 None))))"

section \<open>Envelope and display-from addresses\<close>

text \<open>\<^verbatim>\<open>domainFromAddress\<close>: \<^verbatim>\<open>/@([^>\s]+)/\<close>, the group in lower case.\<close>

definition domainFromAddress :: "string option \<Rightarrow> string option" where
  "domainFromAddress addr =
     (if \<not> truthy_str addr then None
      else
        case find_first
               (\<lambda>prev t. [take (length r1 - length r2) r1.
                            r1 \<leftarrow> rx_lit ''@'' t,
                            r2 \<leftarrow> rx_rep (\<lambda>c. c \<noteq> CHR ''>'' \<and> \<not> is_space c) 1 None r1])
               None (the addr) of
          None \<Rightarrow> None
        | Some m1 \<Rightarrow> if m1 \<noteq> [] then Some (toLowerCase m1) else None)"

text \<open>
  \<^verbatim>\<open>displayNameAndEmail\<close>: the field \<^verbatim>\<open>email\<close> of the result, the only one a caller
  reads. First \<^verbatim>\<open>/(.*)<([^>]+)>/\<close>, whose second group is the address; otherwise the
  first token that looks like an address.
\<close>

definition displayNameAndEmail_email :: "string option \<Rightarrow> string" where
  "displayNameAndEmail_email fromHeader =
     (if \<not> truthy_str fromHeader then []
      else
        case find_first
               (\<lambda>prev t. [take (length r2 - length r3) r2.
                            r1 \<leftarrow> rx_rep (\<lambda>c. \<not> is_line_terminator c) 0 None t,
                            r2 \<leftarrow> rx_lit ''<'' r1,
                            r3 \<leftarrow> rx_rep (\<lambda>c. c \<noteq> CHR ''>'') 1 None r2,
                            r4 \<leftarrow> rx_lit ''>'' r3])
               None (the fromHeader) of
          Some m2 \<Rightarrow> trim m2
        | None \<Rightarrow>
            (case rx_match0 rx_email (the fromHeader) of
               None \<Rightarrow> []
             | Some e \<Rightarrow> e))"

section \<open>Message headers\<close>

text \<open>
  \<^verbatim>\<open>fetchMessageMetadata\<close> turns the header array of the message into an object by
  \<^verbatim>\<open>headers[h.name] = h.value\<close>, so the last header of a name wins. The array is kept,
  and read through \<open>header\<close>.
\<close>

type_synonym headers = "(string \<times> string) list"

definition header :: "headers \<Rightarrow> string \<Rightarrow> string option" where
  "header hs name = map_of (rev hs) name"

text \<open>\<^verbatim>\<open>detectGoogleRelay\<close>\<close>

definition detectGoogleRelay :: "headers \<Rightarrow> bool" where
  "detectGoogleRelay hs =
     (let keys = map (\<lambda>h. toLowerCase (fst h)) hs in
      if list_ex (\<lambda>k. str_includes k ''x-google-smtp-source'') keys then True
      else if list_ex (\<lambda>k. str_includes k ''x-google'') keys then True
      else if list_ex (\<lambda>k. str_includes k ''x-gm-'') keys then True
      else if list_ex (\<lambda>k. str_includes k ''arc-seal'') keys then True
      else if truthy_str (or_str (header hs ''Delivered-To'') (header hs ''delivered-to'')) then True
      else False)"

section \<open>Header trust\<close>

text \<open>\<^verbatim>\<open>HEADER_TRUST_POINTS\<close>\<close>

definition spf_pass :: int where "spf_pass = 40"
definition dkim_pass :: int where "dkim_pass = 40"
definition dmarc_pass :: int where "dmarc_pass = 20"
definition spf_fail :: int where "spf_fail = - 40"
definition dkim_fail :: int where "dkim_fail = - 40"
definition dmarc_fail :: int where "dmarc_fail = - 20"

text \<open>\<^verbatim>\<open>headerTrustFromParsed\<close>; \<open>None\<close> is a falsy argument.\<close>

definition headerTrustFromParsed :: "auth_verdict option \<Rightarrow> int" where
  "headerTrustFromParsed parsed =
     (case parsed of
        None \<Rightarrow> 50
      | Some p \<Rightarrow>
          let trust = 50;
              trust = (if spf p = Pass then trust + spf_pass else trust);
              trust = (if spf p = Fail then trust + spf_fail else trust);
              trust = (if dkim p = Pass then trust + dkim_pass else trust);
              trust = (if dkim p = Fail then trust + dkim_fail else trust);
              trust = (if dmarc p = Pass then trust + dmarc_pass else trust);
              trust = (if dmarc p = Fail then trust + dmarc_fail else trust)
          in max 0 (min 100 trust))"

text \<open>
  The \<^verbatim>\<open>get_headers\<close> handler after the headers are fetched: the trust of the parsed
  verdicts, then the envelope mismatch, the relay and the history of the sender.
  \<open>adjust_trust\<close> is the part after \<^verbatim>\<open>headerTrustFromParsed\<close>; it returns the trust
  and the two flags.
\<close>

definition adjust_trust :: "int \<Rightarrow> string \<Rightarrow> headers \<Rightarrow> ledger \<Rightarrow> int \<times> bool \<times> bool" where
  "adjust_trust trust0 payload_fromText hs m =
     (let fromHeader = or_str (or_str (or_str (header hs ''From'') (header hs ''from''))
                                      (Some payload_fromText)) (Some []);
          returnPath = or_str (or_str (or_str (header hs ''Return-Path'')
                                              (header hs ''return-path''))
                                      (header hs ''Return-Path:'')) (Some []);
          fromEmail = displayNameAndEmail_email (or_str fromHeader (Some []));
          envDomain = or_str (domainFromAddress returnPath) (domainFromAddress (Some fromEmail));
          displayDomain = domainFromAddress (Some fromEmail);
          envelopeMismatch = (truthy_str envDomain \<and> truthy_str displayDomain
                              \<and> envDomain \<noteq> displayDomain);
          trust = (if envelopeMismatch then max 0 (trust0 - 30) else trust0);
          googleRelay = detectGoogleRelay hs;
          trust = (if googleRelay then min 100 (trust + 20) else trust);
          domain = or_str displayDomain envDomain;
          historyBoost = getTrustedSenderBoost m domain;
          trust = (if truthy_num historyBoost
                   then num_int (Math_min (Fin 100) (js_add (Fin (of_int trust)) historyBoost))
                   else trust)
      in (trust, envelopeMismatch, googleRelay))"

definition get_headers_trust :: "string \<Rightarrow> headers \<Rightarrow> ledger \<Rightarrow> int \<times> bool \<times> bool" where
  "get_headers_trust payload_fromText hs m =
     (let authRaw = or_str (or_str (or_str (header hs ''Authentication-Results'')
                                           (header hs ''Authentication-results''))
                                   (header hs ''Authentication-Results:'')) (Some []);
          parsed = parseAuthResults authRaw
      in adjust_trust (headerTrustFromParsed (Some parsed)) payload_fromText hs m)"

section \<open>The final ensemble\<close>

text \<open>\<^verbatim>\<open>WEIGHTS\<close>\<close>

definition WEIGHTS_local :: rat where "WEIGHTS_local = 25 / 100"
definition WEIGHTS_ml :: rat where "WEIGHTS_ml = 50 / 100"
definition WEIGHTS_header :: rat where "WEIGHTS_header = 20 / 100"
definition WEIGHTS_history :: rat where "WEIGHTS_history = 5 / 100"

definition MAX_SCORE :: rat where "MAX_SCORE = 100"

text \<open>\<^verbatim>\<open>w || 0\<close> on a weight.\<close>

definition or_zero :: "rat \<Rightarrow> rat" where
  "or_zero w = (if w \<noteq> 0 then w else 0)"

text \<open>
  The end of the \<^verbatim>\<open>get_scores\<close> handler, ``Build final ensemble'': from the local score,
  the value of \<^verbatim>\<open>ml_score\<close> and the header trust to \<^verbatim>\<open>mlVal\<close> and \<^verbatim>\<open>finalScore\<close>.
  \<^verbatim>\<open>typeof ml_score === "number"\<close> holds of every number, \<^verbatim>\<open>NaN\<close> too.
\<close>

definition mlVal_of :: "jsnum \<Rightarrow> jsval \<Rightarrow> jsnum" where
  "mlVal_of localScore ml_score = (case ml_score of JNumber n \<Rightarrow> n | _ \<Rightarrow> localScore)"

definition ensemble :: "jsnum \<Rightarrow> jsval \<Rightarrow> int \<Rightarrow> jsnum" where
  "ensemble localScore ml_score headerTrust =
     (let mlVal = mlVal_of localScore ml_score;
          headerSuspicion = 100 - (if headerTrust \<noteq> 0 then headerTrust else 50);
          final = Math_round
                    (js_add (js_add (js_mul localScore (Fin (or_zero WEIGHTS_local)))
                                    (js_mul mlVal (Fin (or_zero WEIGHTS_ml))))
                            (js_mul (Fin (of_int headerSuspicion)) (Fin (or_zero WEIGHTS_header))))
      in Math_max (Fin 0) (Math_min (Fin MAX_SCORE) final))"

section \<open>The \<^verbatim>\<open>get_scores\<close> handler\<close>

text \<open>What a call of a collaborator gives: it throws (or its promise rejects), or it
  returns a value.\<close>

datatype 'a outcome = Throws | Returns 'a

text \<open>What the header cache holds for a message. The two flags are absent from the
  entries that \<^verbatim>\<open>get_scores\<close> writes.\<close>

record header_result =
  messageId :: string
  hr_headers :: headers
  hr_parsed :: auth_verdict
  trustBoost :: int
  envelopeMismatch :: "bool option"
  googleRelay :: "bool option"

text \<open>The fields of the payload that the handler reads: \<^verbatim>\<open>localScore\<close> when it is a
  number, \<^verbatim>\<open>local\<close> when it is one, and \<^verbatim>\<open>fromText\<close>.\<close>

record scores_payload =
  pl_localScore :: "jsnum option"
  pl_local :: "jsnum option"
  pl_fromText :: string

text \<open>
  The collaborators of one request: the reply of the backend as the pair of
  \<^verbatim>\<open>json.ml_score\<close> and \<^verbatim>\<open>json.score\<close> (\<open>Throws\<close> when \<^verbatim>\<open>fetch\<close> or
  \<^verbatim>\<open>resp.json()\<close> fails or the reply is \<^verbatim>\<open>null\<close>), the token, the message found,
  the header array fetched, the stored history, the header cache and the clock at the
  lookup and at the store.
\<close>

record scores_env =
  ml_reply :: "(jsval \<times> jsval) outcome"
  gmail_token :: "string option"
  found_message :: "string option outcome"
  fetched_headers :: "headers outcome"
  trustedSenders :: ledger
  HEADER_CACHE :: "(string, header_result) cache"
  now_get :: int
  now_set :: int

record scores_response =
  ok :: bool
  localScore :: jsnum
  ml_score :: jsnum
  headerTrust :: int
  final_score :: jsnum

text \<open>\<^verbatim>\<open>payload.localScore\<close> if it is a number, else \<^verbatim>\<open>payload.local || 50\<close>.\<close>

definition localScore_of :: "scores_payload \<Rightarrow> jsnum" where
  "localScore_of payload =
     (case pl_localScore payload of
        Some n \<Rightarrow> n
      | None \<Rightarrow> (case pl_local payload of
                   Some n \<Rightarrow> if truthy_num n then n else Fin 50
                 | None \<Rightarrow> Fin 50))"

text \<open>The call of the backend: \<^verbatim>\<open>json.ml_score || json.score || null\<close>, a string parsed
  by \<^verbatim>\<open>parseFloat\<close>, and \<^verbatim>\<open>null\<close> when the call fails.\<close>

definition ml_score_of :: "(jsval \<times> jsval) outcome \<Rightarrow> jsval" where
  "ml_score_of reply =
     (case reply of
        Throws \<Rightarrow> JNull
      | Returns (a, b) \<Rightarrow>
          let v = (if truthy a then a else if truthy b then b else JNull)
          in (case v of JString str \<Rightarrow> JNumber (parseFloat str) | _ \<Rightarrow> v))"

text \<open>The trust of fetched headers as \<^verbatim>\<open>get_scores\<close> computes it: the relay before the
  envelope mismatch.\<close>

definition scores_trust :: "string \<Rightarrow> headers \<Rightarrow> ledger \<Rightarrow> int \<times> auth_verdict" where
  "scores_trust payload_fromText hs m =
     (let parsed = parseAuthResults (or_str (header hs ''Authentication-Results'') (Some []));
          trust = headerTrustFromParsed (Some parsed);
          trust = (if detectGoogleRelay hs then min 100 (trust + 20) else trust);
          fromEmail = displayNameAndEmail_email
                        (or_str (or_str (header hs ''From'') (Some payload_fromText)) (Some []));
          envDomain = or_str (domainFromAddress (or_str (header hs ''Return-Path'') (Some [])))
                             (domainFromAddress (Some fromEmail));
          displayDomain = domainFromAddress (Some fromEmail);
          trust = (if truthy_str envDomain \<and> truthy_str displayDomain
                      \<and> envDomain \<noteq> displayDomain
                   then max 0 (trust - 30) else trust);
          domain = or_str displayDomain envDomain;
          historyBoost = getTrustedSenderBoost m domain;
          trust = (if truthy_num historyBoost
                   then num_int (Math_min (Fin 100) (js_add (Fin (of_int trust)) historyBoost))
                   else trust)
      in (trust, parsed))"

text \<open>``Try to fetch header trust'': the header trust and the header cache afterwards.
  Every failure leaves the neutral 50.\<close>

definition header_trust_attempt ::
  "scores_payload \<Rightarrow> scores_env \<Rightarrow> int \<times> (string, header_result) cache" where
  "header_trust_attempt payload env =
     (if \<not> truthy_str (gmail_token env) then (50, HEADER_CACHE env)
      else
        case found_message env of
          Throws \<Rightarrow> (50, HEADER_CACHE env)
        | Returns msgId \<Rightarrow>
            if \<not> truthy_str msgId then (50, HEADER_CACHE env)
            else
              case cacheGet (HEADER_CACHE env) (the msgId) (now_get env) of
                (Some cached, cache1) \<Rightarrow>
                  (if trustBoost cached \<noteq> 0 then trustBoost cached else 50, cache1)
              | (None, cache1) \<Rightarrow>
                  (case fetched_headers env of
                     Throws \<Rightarrow> (50, cache1)
                   | Returns hs \<Rightarrow>
                       let (trust, parsed) =
                             scores_trust (pl_fromText payload) hs (trustedSenders env)
                       in (trust,
                           cacheSet cache1 (the msgId)
                             \<lparr>messageId = the msgId, hr_headers = hs, hr_parsed = parsed,
                              trustBoost = trust, envelopeMismatch = None, googleRelay = None\<rparr>
                             CACHE_TTL_MS (now_set env))))"

definition get_scores ::
  "scores_payload \<Rightarrow> scores_env \<Rightarrow> scores_response \<times> (string, header_result) cache" where
  "get_scores payload env =
     (let local_score = localScore_of payload;
          ml = ml_score_of (ml_reply env);
          (trust, cache') = header_trust_attempt payload env
      in (\<lparr>ok = True, localScore = local_score, ml_score = mlVal_of local_score ml,
           headerTrust = trust, final_score = ensemble local_score ml trust\<rparr>, cache'))"

section \<open>Local heuristic scoring\<close>






text \<open>\<^verbatim>\<open>\d{1,3}\<close> and \<^verbatim>\<open>\.\d{1,3}\<close>\<close>

definition rx_d13 :: rx where
  "rx_d13 = rx_rep is_digit 1 (Some 3)"

definition rx_dot_d13 :: rx where
  "rx_dot_d13 = rx_seq (rx_lit ''.'') rx_d13"





section \<open>Link risk\<close>

definition link_brands :: "string list" where
  "link_brands = [''google'', ''microsoft'', ''paypal'', ''facebook'']"

text \<open>\<^verbatim>\<open>/\d{1,3}\.\d{1,3}\.\d{1,3}\.\d{1,3}/\<close>\<close>

definition rx_ip :: rx where
  "rx_ip = rx_seq rx_d13 (rx_seq rx_dot_d13 (rx_seq rx_dot_d13 rx_dot_d13))"

text \<open>\<^verbatim>\<open>estimateLinkRisk\<close>\<close>

definition estimateLinkRisk :: "string \<Rightarrow> int" where
  "estimateLinkRisk url =
     (let risk = 0;
          risk = (if str_includes url ''ngrok-free.app'' \<or> str_includes url ''ngrok.io''
                  then risk + 70 else risk);
          risk = (if rx_test rx_ip url then risk + 80 else risk);
          risk = (if str_includes url ''verify'' \<and> str_includes url ''google''
                  then risk + 90 else risk);
          risk = (if str_includes url ''login'' \<or> str_includes url ''reset''
                     \<or> str_includes url ''forgot''
                  then risk + 50 else risk);
          risk = (if str_includes url ''http://'' then risk + 30 else risk);
          risk = fold (\<lambda>brand r. if str_includes url brand
                                    \<and> \<not> str_includes url (''.'' @ brand @ ''.'')
                                 then r + 60 else r) link_brands risk
      in min 100 risk)"

section \<open>Link protection\<close>

text \<open>The patterns of \<^verbatim>\<open>isSuspiciousUrl\<close>, in the order of the array.\<close>

definition rx_any :: rx where
  "rx_any = rx_rep (\<lambda>c. \<not> is_line_terminator c) 0 None"

definition rx_both :: "string \<Rightarrow> string \<Rightarrow> rx" where
  "rx_both a b =
     rx_alt (rx_seq (rx_lit_ci a) (rx_seq rx_any (rx_lit_ci b)))
            (rx_seq (rx_lit_ci b) (rx_seq rx_any (rx_lit_ci a)))"

definition suspiciousPatterns :: "rx list" where
  "suspiciousPatterns =
     [rx_ip,
      rx_seq (rx_lit ''.'')
        (rx_seq (rx_alts (map rx_lit_ci
                   [''xyz'', ''top'', ''club'', ''ru'', ''tk'', ''cf'', ''ga'', ''gq'', ''ml'',
                    ''ngrok'', ''localtest'']))
                rx_end),
      rx_alts (map rx_lit_ci
        [''login'', ''verify'', ''account'', ''password'', ''reset'', ''forgot'']),
      rx_alt (rx_lit ''ngrok-free.app'') (rx_lit ''ngrok.io''),
      rx_both ''verify'' ''google'',
      rx_both ''security'' ''alert'',
      rx_both ''unusual'' ''activity'']"

definition suspicious_brands :: "string list" where
  "suspicious_brands =
     [''google'', ''microsoft'', ''paypal'', ''facebook'', ''amazon'', ''apple'', ''bank'']"

definition isSuspiciousUrl :: "string \<Rightarrow> bool" where
  "isSuspiciousUrl url =
     (let urlLower = toLowerCase url in
      if list_ex (\<lambda>brand. str_includes urlLower brand
                            \<and> \<not> str_includes urlLower (''.'' @ brand @ ''.'')) suspicious_brands
      then True
      else list_ex (\<lambda>pattern. rx_test pattern url) suspiciousPatterns)"

text \<open>The class of the quick risk assessment in the popup:
  \<^verbatim>\<open>quickRisk > 70 ? 'high' : quickRisk > 40 ? 'medium' : 'low'\<close>.\<close>

datatype risk_class = high | medium | low

definition quick_assessment :: "int \<Rightarrow> risk_class" where
  "quick_assessment quickRisk =
     (if quickRisk > 70 then high else if quickRisk > 40 then medium else low)"

text \<open>
  The click handler of a protected link: the popup (with the class of the quick
  assessment of the link, which \<^verbatim>\<open>createPhishSpectorPopup\<close> computes), or the link is
  followed. \<open>click_gate\<close> is the condition of the handler. The URL is \<^verbatim>\<open>link.href\<close>, an
  absolute URL, so that \<^verbatim>\<open>new URL(url)\<close> in the popup does not throw.
\<close>

datatype click_outcome = Popup risk_class | Navigate

definition click_gate :: "bool \<Rightarrow> int \<Rightarrow> bool" where
  "click_gate urlSuspicious combinedRisk = (urlSuspicious \<or> combinedRisk > 60)"

definition link_click :: "string \<Rightarrow> int \<Rightarrow> click_outcome" where
  "link_click url emailRiskScore =
     (let urlSuspicious = isSuspiciousUrl url;
          urlRisk = estimateLinkRisk url;
          combinedRisk = (if emailRiskScore > 0 then max urlRisk emailRiskScore else urlRisk)
      in if click_gate urlSuspicious combinedRisk
         then Popup (quick_assessment (estimateLinkRisk url))
         else Navigate)"

section \<open>Notions of the specification\<close>

text \<open>A text contains a token in some letter case: one of its substrings is the token
  once put in lower case.\<close>

definition contains_ci :: "string \<Rightarrow> string \<Rightarrow> bool" where
  "contains_ci s token = (\<exists>u. str_includes s u \<and> toLowerCase u = token)"

text \<open>The points a verdict adds to the trust: plus for pass, minus for fail, nothing for
  unknown.\<close>

definition verdict_delta :: "int \<Rightarrow> verdict \<Rightarrow> int" where
  "verdict_delta points v = (case v of Pass \<Rightarrow> points | Fail \<Rightarrow> - points | Unknown \<Rightarrow> 0)"

text \<open>The count the history holds for a domain, 0 when it holds no record.\<close>

definition count_of :: "ledger \<Rightarrow> string \<Rightarrow> nat" where
  "count_of m d = (case stored m d of None \<Rightarrow> 0 | Some r \<Rightarrow> count r)"

text \<open>A domain of which the stored object holds no record, but for which a plain object
  inherits a value.\<close>

definition inherited :: "string \<Rightarrow> bool" where
  "inherited d = (d = ''__proto__'' \<or> d \<in> set prototype_functions)"

text \<open>
  The final score as the specification words it: the weighted sum of the local score, the
  ML score (the local score when there is none) and the header suspicion \<open>100 - trust\<close>,
  rounded and clamped to \<open>[0, 100]\<close>.
\<close>

definition ensemble_spec :: "rat \<Rightarrow> rat option \<Rightarrow> int \<Rightarrow> int" where
  "ensemble_spec l ml t =
     max 0 (min 100 (round (25 / 100 * l + 50 / 100 * (case ml of None \<Rightarrow> l | Some m \<Rightarrow> m)
                            + 20 / 100 * of_int (100 - t))))"

text \<open>
  The link risk as a sum of independent checks, before the cap, with the tokens of each
  check written out: the two tunnel domains, the dotted quad, \<^verbatim>\<open>verify\<close> together with
  \<^verbatim>\<open>google\<close>, the three keywords, the plain scheme, and the four brands.
\<close>

definition link_risk_sum :: "string \<Rightarrow> int" where
  "link_risk_sum url =
     (if str_includes url ''ngrok-free.app'' \<or> str_includes url ''ngrok.io'' then 70 else 0)
     + (if rx_test rx_ip url then 80 else 0)
     + (if str_includes url ''verify'' \<and> str_includes url ''google'' then 90 else 0)
     + (if str_includes url ''login'' \<or> str_includes url ''reset'' \<or> str_includes url ''forgot''
        then 50 else 0)
     + (if str_includes url ''http://'' then 30 else 0)
     + 60 * int (length (filter (\<lambda>brand. str_includes url brand
                                           \<and> \<not> str_includes url (''.'' @ brand @ ''.''))
                           [''google'', ''microsoft'', ''paypal'', ''facebook'']))"

text \<open>The same sum with the 90 for \<^verbatim>\<open>verify\<close> together with any of the four brands.\<close>

definition link_risk_sum_any_brand :: "string \<Rightarrow> int" where
  "link_risk_sum_any_brand url =
     (if str_includes url ''ngrok-free.app'' \<or> str_includes url ''ngrok.io'' then 70 else 0)
     + (if rx_test rx_ip url then 80 else 0)
     + (if str_includes url ''verify''
           \<and> list_ex (\<lambda>brand. str_includes url brand)
                 [''google'', ''microsoft'', ''paypal'', ''facebook'']
        then 90 else 0)
     + (if str_includes url ''login'' \<or> str_includes url ''reset'' \<or> str_includes url ''forgot''
        then 50 else 0)
     + (if str_includes url ''http://'' then 30 else 0)
     + 60 * int (length (filter (\<lambda>brand. str_includes url brand
                                           \<and> \<not> str_includes url (''.'' @ brand @ ''.''))
                           [''google'', ''microsoft'', ''paypal'', ''facebook'']))"








section \<open>Substrings\<close>

lemma str_includes_iff: "str_includes s sub \<longleftrightarrow> (\<exists>p q. s = p @ sub @ q)"
proof (induction s)
  case Nil
  then show ?case by auto
next
  case (Cons c cs)
  have "startsWith (c # cs) sub \<longleftrightarrow> (\<exists>q. c # cs = sub @ q)"
    unfolding startsWith_def
    by (metis append_eq_conv_conj)
  moreover have "(\<exists>p q. c # cs = p @ sub @ q) \<longleftrightarrow>
                 (\<exists>q. c # cs = sub @ q) \<or> (\<exists>p q. cs = p @ sub @ q)"
  proof
    assume "\<exists>p q. c # cs = p @ sub @ q"
    then obtain p q where pq: "c # cs = p @ sub @ q" by blast
    show "(\<exists>q. c # cs = sub @ q) \<or> (\<exists>p q. cs = p @ sub @ q)"
    proof (cases p)
      case Nil
      with pq show ?thesis by auto
    next
      case (Cons a p')
      with pq have "cs = p' @ sub @ q" by simp
      then show ?thesis by blast
    qed
  next
    assume "(\<exists>q. c # cs = sub @ q) \<or> (\<exists>p q. cs = p @ sub @ q)"
    then show "\<exists>p q. c # cs = p @ sub @ q"
    proof
      assume "\<exists>q. c # cs = sub @ q"
      then obtain q where "c # cs = [] @ sub @ q" by auto
      then show ?thesis by blast
    next
      assume "\<exists>p q. cs = p @ sub @ q"
      then obtain p q where "c # cs = (c # p) @ sub @ q" by auto
      then show ?thesis by blast
    qed
  qed
  ultimately show ?case using Cons.IH by simp
qed

text \<open>The parser looks for a token in the lower-cased text; that finds the token in
  every letter case.\<close>

lemma contains_ci_iff: "contains_ci s token \<longleftrightarrow> str_includes (toLowerCase s) token"
proof
  assume "contains_ci s token"
  then obtain u p q where "s = p @ u @ q" "toLowerCase u = token"
    unfolding contains_ci_def str_includes_iff by blast
  then have "toLowerCase s = toLowerCase p @ token @ toLowerCase q"
    by (simp add: toLowerCase_def)
  then show "str_includes (toLowerCase s) token"
    unfolding str_includes_iff by blast
next
  assume "str_includes (toLowerCase s) token"
  then obtain p q where "map lower_char s = p @ token @ q"
    unfolding str_includes_iff toLowerCase_def by blast
  then obtain p' u q' where "s = p' @ u @ q'" "map lower_char u = token"
    by (metis map_eq_append_conv)
  then show "contains_ci s token"
    unfolding contains_ci_def str_includes_iff toLowerCase_def by blast
qed

section \<open>The parser of Authentication-Results\<close>

text \<open>
  C10. For every text that contains both the pass token and the fail token of a protocol,
  in any letter case, \<^verbatim>\<open>parseAuthResults\<close> resolves the protocol to pass; a text with
  neither token resolves it to unknown.
\<close>

theorem parseAuthResults_pass_precedence:
  "(contains_ci s ''spf=pass'' \<and> contains_ci s ''spf=fail''
      \<longrightarrow> spf (parseAuthResults (Some s)) = Pass)
   \<and> (contains_ci s ''dkim=pass'' \<and> contains_ci s ''dkim=fail''
      \<longrightarrow> dkim (parseAuthResults (Some s)) = Pass)
   \<and> (contains_ci s ''dmarc=pass'' \<and> contains_ci s ''dmarc=fail''
      \<longrightarrow> dmarc (parseAuthResults (Some s)) = Pass)
   \<and> (\<not> contains_ci s ''spf=pass'' \<and> \<not> contains_ci s ''spf=fail''
      \<longrightarrow> spf (parseAuthResults (Some s)) = Unknown)
   \<and> (\<not> contains_ci s ''dkim=pass'' \<and> \<not> contains_ci s ''dkim=fail''
      \<longrightarrow> dkim (parseAuthResults (Some s)) = Unknown)
   \<and> (\<not> contains_ci s ''dmarc=pass'' \<and> \<not> contains_ci s ''dmarc=fail''
      \<longrightarrow> dmarc (parseAuthResults (Some s)) = Unknown)"
  unfolding contains_ci_iff
  by (cases "s = []") (simp_all add: parseAuthResults_def truthy_str_def Let_def toLowerCase_def)

text \<open>A header with both tokens of each protocol, and one with none.\<close>

theorem parseAuthResults_pass_precedence_witness:
  "contains_ci ''SPF=Pass spf=FAIL dkim=fail DKIM=pass dmarc=Fail dmarc=PASS'' ''spf=pass''
   \<and> contains_ci ''SPF=Pass spf=FAIL dkim=fail DKIM=pass dmarc=Fail dmarc=PASS'' ''spf=fail''
   \<and> spf (parseAuthResults (Some ''SPF=Pass spf=FAIL dkim=fail DKIM=pass dmarc=Fail dmarc=PASS'')) = Pass
   \<and> dkim (parseAuthResults (Some ''SPF=Pass spf=FAIL dkim=fail DKIM=pass dmarc=Fail dmarc=PASS'')) = Pass
   \<and> dmarc (parseAuthResults (Some ''SPF=Pass spf=FAIL dkim=fail DKIM=pass dmarc=Fail dmarc=PASS'')) = Pass
   \<and> \<not> contains_ci ''mx.example.com; none'' ''spf=pass''
   \<and> \<not> contains_ci ''mx.example.com; none'' ''spf=fail''
   \<and> spf (parseAuthResults (Some ''mx.example.com; none'')) = Unknown
   \<and> dkim (parseAuthResults (Some ''mx.example.com; none'')) = Unknown
   \<and> dmarc (parseAuthResults (Some ''mx.example.com; none'')) = Unknown"
proof -
  let ?a = "''SPF=Pass spf=FAIL dkim=fail DKIM=pass dmarc=Fail dmarc=PASS''"
  let ?b = "''mx.example.com; none''"
  have a: "contains_ci ?a ''spf=pass''" "contains_ci ?a ''spf=fail''"
          "contains_ci ?a ''dkim=pass''" "contains_ci ?a ''dkim=fail''"
          "contains_ci ?a ''dmarc=pass''" "contains_ci ?a ''dmarc=fail''"
    unfolding contains_ci_iff by code_simp+
  have b: "\<not> contains_ci ?b ''spf=pass''" "\<not> contains_ci ?b ''spf=fail''"
          "\<not> contains_ci ?b ''dkim=pass''" "\<not> contains_ci ?b ''dkim=fail''"
          "\<not> contains_ci ?b ''dmarc=pass''" "\<not> contains_ci ?b ''dmarc=fail''"
    unfolding contains_ci_iff by code_simp+
  from a b parseAuthResults_pass_precedence[of ?a] parseAuthResults_pass_precedence[of ?b]
  show ?thesis by blast
qed

section \<open>The history of trusted senders\<close>

lemma boost_min:
  "Math_min (Fin 25) (js_mul (Fin (of_nat c)) (Fin 5)) = Fin (of_int (min 25 (int c * 5)))"
  by (simp add: min_def)

lemma lookup_ordinary:
  "\<not> inherited d \<Longrightarrow>
     lookup m d = (case stored m d of None \<Rightarrow> Undefined | Some r \<Rightarrow> Found (Some r))"
  by (simp add: lookup_def inherited_def split: option.splits)

lemma lookup_stored: "stored m d = Some r \<Longrightarrow> lookup m d = Found (Some r)"
  by (simp add: lookup_def)

lemma boost_no_record:
  "stored m d = None \<Longrightarrow> \<not> inherited d \<Longrightarrow> getTrustedSenderBoost m (Some d) = Fin 0"
  by (simp add: getTrustedSenderBoost_def lookup_ordinary)

lemma boost_record:
  "d \<noteq> [] \<Longrightarrow> stored m d = Some r \<Longrightarrow>
     getTrustedSenderBoost m (Some d) = Fin (of_int (min 25 (int (count r) * 5)))"
  by (simp add: getTrustedSenderBoost_def lookup_stored truthy_str_def
        TRUST_BOOST_FROM_HISTORY_def boost_min)

lemma boost_ordinary:
  "\<not> inherited d \<Longrightarrow>
     getTrustedSenderBoost m (Some d) =
       Fin (of_int (if d = [] then 0 else min 25 (int (count_of m d) * 5)))"
  by (cases "stored m d")
     (simp_all add: getTrustedSenderBoost_def lookup_ordinary truthy_str_def count_of_def
        TRUST_BOOST_FROM_HISTORY_def boost_min)

text \<open>A confirmation changes the stored object at its own domain only, and there it adds
  one to the count; a confirmation of an inherited name without a stored record does not
  change the stored object.\<close>

lemma add_stored_other:
  "dm \<noteq> Some d' \<Longrightarrow> stored (addTrustedSenderDomain m dm now) d' = stored m d'"
  by (cases dm) (auto simp: addTrustedSenderDomain_def assign_def Let_def truthy_str_def)

lemma add_stored_ordinary:
  "d \<noteq> [] \<Longrightarrow> \<not> inherited d \<Longrightarrow>
     stored (addTrustedSenderDomain m (Some d) now) d
       = Some \<lparr>count = count_of m d + 1, last = now\<rparr>"
  by (cases "stored m d")
     (simp_all add: addTrustedSenderDomain_def assign_def Let_def truthy_str_def count_of_def
        lookup_def inherited_def)

lemma count_of_add:
  "\<not> inherited d' \<Longrightarrow> count_of m d' \<le> count_of (addTrustedSenderDomain m dm now) d'"
proof (cases "dm = Some d' \<and> d' \<noteq> []")
  case True
  assume "\<not> inherited d'"
  with True show ?thesis by (simp add: count_of_def[of "addTrustedSenderDomain _ _ _"] add_stored_ordinary)
next
  case False
  then consider "dm \<noteq> Some d'" | "dm = Some []" by blast
  then show ?thesis
  proof cases
    case 1
    then show ?thesis by (simp add: count_of_def add_stored_other)
  next
    case 2
    then show ?thesis by (simp add: addTrustedSenderDomain_def truthy_str_def)
  qed
qed

lemma boost_add_mono:
  assumes "\<not> inherited d'"
  shows "js_le (getTrustedSenderBoost m (Some d'))
               (getTrustedSenderBoost (addTrustedSenderDomain m dm now) (Some d'))"
  using count_of_add[OF assms, of m dm now]
  by (simp add: boost_ordinary[OF assms] min_def)

lemma count_of_times:
  "\<not> inherited d' \<Longrightarrow> count_of m d' \<le> count_of (recordSafe_times m dm nows) d'"
proof (induction nows arbitrary: m)
  case Nil
  then show ?case by simp
next
  case (Cons now nows)
  have "count_of m d' \<le> count_of (addTrustedSenderDomain m dm now) d'"
    using Cons.prems by (rule count_of_add)
  also have "\<dots> \<le> count_of (recordSafe_times (addTrustedSenderDomain m dm now) dm nows) d'"
    using Cons.prems by (rule Cons.IH)
  finally show ?case by simp
qed

lemma boost_times_mono:
  assumes "\<not> inherited d'"
  shows "js_le (getTrustedSenderBoost m (Some d'))
               (getTrustedSenderBoost (recordSafe_times m dm nows) (Some d'))"
  using count_of_times[OF assms, of m dm nows]
  by (simp add: boost_ordinary[OF assms] min_def)

lemma recordSafe_times_append:
  "recordSafe_times m d (xs @ ys) = recordSafe_times (recordSafe_times m d xs) d ys"
  by (induction xs arbitrary: m) simp_all

lemma count_of_times_own:
  "d \<noteq> [] \<Longrightarrow> \<not> inherited d \<Longrightarrow>
     count_of (recordSafe_times m (Some d) nows) d = count_of m d + length nows"
proof (induction nows arbitrary: m)
  case Nil
  then show ?case by simp
next
  case (Cons now nows)
  have "count_of (addTrustedSenderDomain m (Some d) now) d = count_of m d + 1"
    using Cons.prems by (simp add: count_of_def[of "addTrustedSenderDomain _ _ _"] add_stored_ordinary)
  with Cons show ?case by simp
qed

lemma boost_after_times:
  "d \<noteq> [] \<Longrightarrow> \<not> inherited d \<Longrightarrow>
     getTrustedSenderBoost (recordSafe_times m (Some d) nows) (Some d)
       = Fin (of_int (min 25 (int (count_of m d + length nows) * 5)))"
  by (simp add: boost_ordinary count_of_times_own)

text \<open>The boost is \<^verbatim>\<open>NaN\<close> or an integer from 0 to 25.\<close>

lemma boost_values:
  "getTrustedSenderBoost m d = NaN
   \<or> (\<exists>b. 0 \<le> b \<and> b \<le> 25 \<and> getTrustedSenderBoost m d = Fin (of_int b))"
proof (cases "truthy_str d")
  case False
  then have "getTrustedSenderBoost m d = Fin (of_int 0)"
    by (simp add: getTrustedSenderBoost_def)
  then show ?thesis by (intro disjI2 exI[of _ 0]) simp
next
  case True
  show ?thesis
  proof (cases "lookup m (the d)")
    case Undefined
    with True have "getTrustedSenderBoost m d = Fin (of_int 0)"
      by (simp add: getTrustedSenderBoost_def)
    then show ?thesis by (intro disjI2 exI[of _ 0]) simp
  next
    case (Found rec)
    show ?thesis
    proof (cases rec)
      case None
      with True Found have "getTrustedSenderBoost m d = NaN"
        by (simp add: getTrustedSenderBoost_def)
      then show ?thesis by simp
    next
      case (Some r)
      with True Found have "getTrustedSenderBoost m d = Fin (of_int (min 25 (int (count r) * 5)))"
        by (simp add: getTrustedSenderBoost_def TRUST_BOOST_FROM_HISTORY_def boost_min)
      then show ?thesis by (intro disjI2 exI[of _ "min 25 (int (count r) * 5)"]) simp
    qed
  qed
qed

text \<open>
  For every domain that is not a name a plain object inherits, the boost is 0 when the
  store holds no record of it and \<open>min 25 (count * 5)\<close> otherwise; it lies between 0 and
  25; further confirmations, of whatever domain, never lower it; and a confirmation of an
  absent or empty domain leaves the state as it is.
\<close>

lemma trust_ledger_ordinary_domains:
  assumes "\<not> inherited d"
  shows "(stored m d = None \<longrightarrow> getTrustedSenderBoost m (Some d) = Fin 0)
   \<and> (d \<noteq> [] \<longrightarrow> (\<forall>r. stored m d = Some r \<longrightarrow>
         getTrustedSenderBoost m (Some d) = Fin (of_int (min 25 (int (count r) * 5)))))
   \<and> js_le (Fin 0) (getTrustedSenderBoost m (Some d))
   \<and> js_le (getTrustedSenderBoost m (Some d)) (Fin 25)
   \<and> js_le (getTrustedSenderBoost (recordSafe_times m dm nows) (Some d))
            (getTrustedSenderBoost (recordSafe_times m dm (nows @ later)) (Some d))
   \<and> addTrustedSenderDomain m None now = m
   \<and> addTrustedSenderDomain m (Some []) now = m"
proof -
  have 1: "stored m d = None \<longrightarrow> getTrustedSenderBoost m (Some d) = Fin 0"
    using assms by (simp add: boost_no_record)
  have 2: "d \<noteq> [] \<longrightarrow> (\<forall>r. stored m d = Some r \<longrightarrow>
         getTrustedSenderBoost m (Some d) = Fin (of_int (min 25 (int (count r) * 5))))"
    by (simp add: boost_record)
  have 3: "js_le (Fin 0) (getTrustedSenderBoost m (Some d))"
          "js_le (getTrustedSenderBoost m (Some d)) (Fin 25)"
    by (simp_all add: boost_ordinary[OF assms])
  have 4: "js_le (getTrustedSenderBoost (recordSafe_times m dm nows) (Some d))
            (getTrustedSenderBoost (recordSafe_times m dm (nows @ later)) (Some d))"
    unfolding recordSafe_times_append using assms by (rule boost_times_mono)
  have 5: "addTrustedSenderDomain m None now = m" "addTrustedSenderDomain m (Some []) now = m"
    by (simp_all add: addTrustedSenderDomain_def truthy_str_def)
  from 1 2 3 4 5 show ?thesis by blast
qed

text \<open>
  C7. \<^verbatim>\<open>getTrustedSenderBoost\<close> is 0 without a record and \<open>min 25 (count * 5)\<close> with one,
  at most 25 and never lowered by a confirmation, and a confirmation of an absent or empty
  domain does nothing. The code has this for the domains that are not inherited names
  (\<open>trust_ledger_ordinary_domains\<close>) and misses it for the others, since it indexes a
  plain object: the sender \<^verbatim>\<open>x@constructor\<close> has the domain \<^verbatim>\<open>constructor\<close>, of which
  the store holds no record, and the boost is \<^verbatim>\<open>NaN\<close>, which is neither 0 nor at most
  25. A confirmation of that domain writes no record in the store; it writes the count on
  the built-in function, and the boost is 5 afterwards.
\<close>

theorem getTrustedSenderBoost_inherited_name:
  "domainFromAddress (Some ''x@constructor'') = Some ''constructor''
   \<and> stored no_history ''constructor'' = None
   \<and> getTrustedSenderBoost no_history (Some ''constructor'') = NaN
   \<and> \<not> js_le (getTrustedSenderBoost no_history (Some ''constructor'')) (Fin 25)
   \<and> stored (addTrustedSenderDomain no_history (Some ''constructor'') 7) ''constructor'' = None
   \<and> getTrustedSenderBoost (addTrustedSenderDomain no_history (Some ''constructor'') 7)
        (Some ''constructor'') = Fin 5"
  by code_simp

section \<open>The timed cache\<close>

text \<open>
  C6, as the code has it. For every key, value and ttl: after \<^verbatim>\<open>cacheSet\<close>, a lookup of
  the key returns the value whenever the elapsed time is less than the ttl. When the ttl is
  not 0, a lookup after more than the ttl returns \<^verbatim>\<open>null\<close> and deletes the entry; a ttl
  of 0 stands for the default of ten minutes, and the entry expires after more than that.
  A lookup removes nothing but the expired entry of its key, and a store changes no other
  key.
\<close>

theorem timed_cache_get_after_set:
  "(now' - now < t \<longrightarrow> fst (cacheGet (cacheSet c k v t now) k now') = Some v)
   \<and> (t \<noteq> 0 \<and> t < now' - now \<longrightarrow>
        cacheGet (cacheSet c k v t now) k now' = (None, (cacheSet c k v t now)(k := None)))
   \<and> (t = 0 \<and> CACHE_TTL_MS < now' - now \<longrightarrow>
        cacheGet (cacheSet c k v t now) k now' = (None, (cacheSet c k v t now)(k := None)))
   \<and> (k' \<noteq> k \<longrightarrow> cacheSet c k v t now k' = c k' \<and> snd (cacheGet c k now) k' = c k')
   \<and> (fst (cacheGet c k now) \<noteq> None \<longrightarrow> snd (cacheGet c k now) = c)"
  by (auto simp: cacheGet_def cacheSet_def CACHE_TTL_MS_def split: option.splits)

text \<open>An entry with a ttl of five minutes, read after one minute and after six; an entry
  with a ttl of 0, read after eleven minutes.\<close>

theorem timed_cache_get_after_set_witness:
  "fst (cacheGet (cacheSet Map.empty ''q'' ''v'' 300000 1000) ''q'' 61000) = Some ''v''
   \<and> fst (cacheGet (cacheSet Map.empty ''q'' ''v'' 300000 1000) ''q'' 361001) = None
   \<and> snd (cacheGet (cacheSet Map.empty ''q'' ''v'' 300000 1000) ''q'' 361001) ''q'' = None
   \<and> fst (cacheGet (cacheSet Map.empty ''q'' ''v'' 0 1000) ''q'' 661000) = None
   \<and> cacheSet [''p'' \<mapsto> \<lparr>ts = 0, data = ''w'', ttl = 5\<rparr>] ''q'' ''v'' 300000 1000 ''p''
       = Some \<lparr>ts = 0, data = ''w'', ttl = 5\<rparr>
   \<and> snd (cacheGet [''p'' \<mapsto> \<lparr>ts = 0, data = ''w'', ttl = 5\<rparr>] ''p'' 3)
       = [''p'' \<mapsto> \<lparr>ts = 0, data = ''w'', ttl = 5\<rparr>]"
proof -
  let ?c = "[''p'' \<mapsto> \<lparr>ts = 0, data = ''w'', ttl = 5\<rparr>]"
  have 1: "fst (cacheGet (cacheSet Map.empty ''q'' ''v'' 300000 1000) ''q'' 61000) = Some ''v''"
    using timed_cache_get_after_set[of 61000 1000 300000 Map.empty "''q''" "''v''"] by simp
  have 2: "cacheGet (cacheSet Map.empty ''q'' ''v'' 300000 1000) ''q'' 361001
           = (None, (cacheSet Map.empty ''q'' ''v'' 300000 1000)(''q'' := None))"
    using timed_cache_get_after_set[of 361001 1000 300000 Map.empty "''q''" "''v''"] by simp
  have 3: "cacheGet (cacheSet Map.empty ''q'' ''v'' 0 1000) ''q'' 661000
           = (None, (cacheSet Map.empty ''q'' ''v'' 0 1000)(''q'' := None))"
    using timed_cache_get_after_set[of 661000 1000 0 Map.empty "''q''" "''v''"]
    by (simp add: CACHE_TTL_MS_def)
  have 4: "cacheSet ?c ''q'' ''v'' 300000 1000 ''p'' = ?c ''p''"
    using timed_cache_get_after_set[of 0 1000 300000 ?c "''q''" "''v''" "''p''"] by simp
  have g: "fst (cacheGet ?c ''p'' 3) \<noteq> None"
    by (simp add: cacheGet_def)
  have 5: "snd (cacheGet ?c ''p'' 3) = ?c"
    using g timed_cache_get_after_set[of 0 3 0 ?c "''p''" "''w''" "''p''"] by blast
  from 1 2 3 4 5 show ?thesis by simp
qed

text \<open>An entry stored with a ttl of 0 is still returned after one second, although the
  elapsed time is more than the ttl.\<close>

theorem timed_cache_zero_ttl_counterexample:
  "(0::int) < 2000 - 1000
   \<and> fst (cacheGet (cacheSet Map.empty ''k'' ''v'' 0 1000) ''k'' 2000) = Some ''v''"
  by (simp add: cacheGet_def cacheSet_def CACHE_TTL_MS_def)

section \<open>The range of the header trust\<close>

lemma headerTrustFromParsed_range:
  "0 \<le> headerTrustFromParsed p \<and> headerTrustFromParsed p \<le> 100"
  by (simp add: headerTrustFromParsed_def Let_def split: option.splits)

lemma headerTrustFromParsed_deltas:
  "headerTrustFromParsed (Some v) =
     max 0 (min 100 (50 + verdict_delta 40 (spf v) + verdict_delta 40 (dkim v)
                        + verdict_delta 20 (dmarc v)))"
  by (cases "spf v"; cases "dkim v"; cases "dmarc v")
     (simp_all add: headerTrustFromParsed_def verdict_delta_def Let_def spf_pass_def spf_fail_def
        dkim_pass_def dkim_fail_def dmarc_pass_def dmarc_fail_def)

text \<open>The step of the handlers that adds the boost keeps the trust in range, and so do
  the steps before it, in the order of either handler.\<close>

lemma add_boost_range:
  assumes "0 \<le> t" "t \<le> 100"
  shows "0 \<le> (if truthy_num (getTrustedSenderBoost m d)
               then num_int (Math_min (Fin 100) (js_add (Fin (of_int t)) (getTrustedSenderBoost m d)))
               else t)
         \<and> (if truthy_num (getTrustedSenderBoost m d)
               then num_int (Math_min (Fin 100) (js_add (Fin (of_int t)) (getTrustedSenderBoost m d)))
               else t) \<le> 100"
  using boost_values[of m d]
proof
  assume "getTrustedSenderBoost m d = NaN"
  with assms show ?thesis by simp
next
  assume "\<exists>b. 0 \<le> b \<and> b \<le> 25 \<and> getTrustedSenderBoost m d = Fin (of_int b)"
  then obtain b where b: "0 \<le> b" "b \<le> 25" "getTrustedSenderBoost m d = Fin (of_int b)"
    by blast
  have "Math_min (Fin 100) (js_add (Fin (of_int t)) (Fin (of_int b))) = Fin (of_int (min 100 (t + b)))"
    by (simp add: min_def)
  with assms b show ?thesis by simp
qed

lemma trust_steps_range:
  assumes "0 \<le> t" "t \<le> 100"
  shows "0 \<le> (if truthy_num (getTrustedSenderBoost m d)
               then num_int (Math_min (Fin 100)
                      (js_add (Fin (of_int (if gr then min 100 ((if mm then max 0 (t - 30) else t) + 20)
                                            else (if mm then max 0 (t - 30) else t))))
                              (getTrustedSenderBoost m d)))
               else (if gr then min 100 ((if mm then max 0 (t - 30) else t) + 20)
                     else (if mm then max 0 (t - 30) else t)))
         \<and> (if truthy_num (getTrustedSenderBoost m d)
               then num_int (Math_min (Fin 100)
                      (js_add (Fin (of_int (if gr then min 100 ((if mm then max 0 (t - 30) else t) + 20)
                                            else (if mm then max 0 (t - 30) else t))))
                              (getTrustedSenderBoost m d)))
               else (if gr then min 100 ((if mm then max 0 (t - 30) else t) + 20)
                     else (if mm then max 0 (t - 30) else t))) \<le> 100"
proof -
  have "0 \<le> (if gr then min 100 ((if mm then max 0 (t - 30) else t) + 20)
              else (if mm then max 0 (t - 30) else t))"
       "(if gr then min 100 ((if mm then max 0 (t - 30) else t) + 20)
              else (if mm then max 0 (t - 30) else t)) \<le> 100"
    using assms by auto
  then show ?thesis by (rule add_boost_range)
qed

lemma adjust_trust_range:
  assumes "0 \<le> t" "t \<le> 100"
  shows "0 \<le> fst (adjust_trust t f hs m) \<and> fst (adjust_trust t f hs m) \<le> 100"
  unfolding adjust_trust_def Let_def fst_conv
  using assms by (rule trust_steps_range)

lemma scores_steps_range:
  assumes "0 \<le> t" "t \<le> 100"
  shows "0 \<le> (if truthy_num (getTrustedSenderBoost m d)
               then num_int (Math_min (Fin 100)
                      (js_add (Fin (of_int (if mm then max 0 ((if gr then min 100 (t + 20) else t) - 30)
                                            else (if gr then min 100 (t + 20) else t))))
                              (getTrustedSenderBoost m d)))
               else (if mm then max 0 ((if gr then min 100 (t + 20) else t) - 30)
                     else (if gr then min 100 (t + 20) else t)))
         \<and> (if truthy_num (getTrustedSenderBoost m d)
               then num_int (Math_min (Fin 100)
                      (js_add (Fin (of_int (if mm then max 0 ((if gr then min 100 (t + 20) else t) - 30)
                                            else (if gr then min 100 (t + 20) else t))))
                              (getTrustedSenderBoost m d)))
               else (if mm then max 0 ((if gr then min 100 (t + 20) else t) - 30)
                     else (if gr then min 100 (t + 20) else t))) \<le> 100"
proof -
  have "0 \<le> (if mm then max 0 ((if gr then min 100 (t + 20) else t) - 30)
              else (if gr then min 100 (t + 20) else t))"
       "(if mm then max 0 ((if gr then min 100 (t + 20) else t) - 30)
              else (if gr then min 100 (t + 20) else t)) \<le> 100"
    using assms by auto
  then show ?thesis by (rule add_boost_range)
qed

lemma scores_trust_range:
  "0 \<le> fst (scores_trust f hs m) \<and> fst (scores_trust f hs m) \<le> 100"
  unfolding scores_trust_def Let_def fst_conv
  using headerTrustFromParsed_range by (intro scores_steps_range) auto

text \<open>
  C2. For every verdict of the three protocols, and for every sender text, header array
  and history, the trust of the \<^verbatim>\<open>get_headers\<close> handler lies between 0 and 100: after
  \<^verbatim>\<open>headerTrustFromParsed\<close>, and after the mismatch penalty, the relay bonus and the
  history boost, whatever verdict the pipeline starts from and also when it parses the
  verdict from the headers.
\<close>

theorem header_trust_in_range:
  "headerTrustFromParsed (Some v) =
     max 0 (min 100 (50 + verdict_delta 40 (spf v) + verdict_delta 40 (dkim v)
                        + verdict_delta 20 (dmarc v)))
   \<and> 0 \<le> headerTrustFromParsed (Some v) \<and> headerTrustFromParsed (Some v) \<le> 100
   \<and> 0 \<le> fst (adjust_trust (headerTrustFromParsed (Some v)) fromText hs m)
   \<and> fst (adjust_trust (headerTrustFromParsed (Some v)) fromText hs m) \<le> 100
   \<and> 0 \<le> fst (get_headers_trust fromText hs m)
   \<and> fst (get_headers_trust fromText hs m) \<le> 100"
proof -
  have d: "headerTrustFromParsed (Some v) =
             max 0 (min 100 (50 + verdict_delta 40 (spf v) + verdict_delta 40 (dkim v)
                                + verdict_delta 20 (dmarc v)))"
    by (rule headerTrustFromParsed_deltas)
  have r: "0 \<le> headerTrustFromParsed p" "headerTrustFromParsed p \<le> 100" for p
    using headerTrustFromParsed_range[of p] by simp_all
  have a: "0 \<le> fst (adjust_trust (headerTrustFromParsed (Some v)) fromText hs m)
           \<and> fst (adjust_trust (headerTrustFromParsed (Some v)) fromText hs m) \<le> 100"
    using r by (rule adjust_trust_range)
  have g: "0 \<le> fst (get_headers_trust fromText hs m)
           \<and> fst (get_headers_trust fromText hs m) \<le> 100"
    unfolding get_headers_trust_def Let_def using r by (rule adjust_trust_range)
  from d r[of "Some v"] a g show ?thesis by blast
qed

text \<open>The examples of the specification: a header with one pass and one fail; a message
  that fails every protocol and whose envelope domain differs, with trust 0; a domain
  confirmed five times, and once more, with boost 25.\<close>

lemma specification_examples:
  "parseAuthResults (Some ''spf=pass dkim=fail'')
     = \<lparr>spf = Pass, dkim = Fail, dmarc = Unknown, raw = ''spf=pass dkim=fail''\<rparr>"
  "get_headers_trust ''PayPal''
     [(''Return-Path'', ''<bounce@mailer.example>''),
      (''From'', ''PayPal <service@paypal.example>''),
      (''Authentication-Results'', ''spf=fail; dkim=fail; dmarc=fail'')] no_history
     = (0, True, False)"
  "getTrustedSenderBoost (recordSafe_times no_history (Some ''trusted.example'') [1, 2, 3, 4, 5])
     (Some ''trusted.example'') = Fin 25"
  "getTrustedSenderBoost (recordSafe_times no_history (Some ''trusted.example'') [1, 2, 3, 4, 5, 6])
     (Some ''trusted.example'') = Fin 25"
  by code_simp+

section \<open>The final ensemble and the \<^verbatim>\<open>get_scores\<close> handler\<close>

lemmas ens_defs = ensemble_def mlVal_of_def or_zero_def WEIGHTS_local_def WEIGHTS_ml_def
  WEIGHTS_header_def MAX_SCORE_def

lemma clamp_fin:
  "Math_max (Fin 0) (Math_min (Fin 100) (Fin (of_int z))) = Fin (of_int (max 0 (min 100 z)))"
  by (simp add: min_def max_def)

text \<open>For a header trust other than 0 the handler computes, in the exact arithmetic of
  the model, the final score of the specification, with the ML score when it is a number
  and with the local score in its place otherwise.\<close>

lemma ensemble_number:
  "t \<noteq> 0 \<Longrightarrow> ensemble (Fin l) (JNumber (Fin m)) t = Fin (of_int (ensemble_spec l (Some m) t))"
  unfolding ens_defs ensemble_spec_def Let_def round_def
  by (simp add: clamp_fin algebra_simps del: of_int_max of_int_min)

lemma ensemble_no_number:
  "t \<noteq> 0 \<Longrightarrow> (\<forall>n. ml \<noteq> JNumber n) \<Longrightarrow>
     ensemble (Fin l) ml t = Fin (of_int (ensemble_spec l None t))"
  unfolding ens_defs ensemble_spec_def Let_def round_def
  by (cases ml) (simp_all add: clamp_fin algebra_simps)

text \<open>A header trust of 0 is read as the neutral 50.\<close>

lemma ensemble_zero_trust: "ensemble l ml 0 = ensemble l ml 50"
  by (simp add: ensemble_def)

lemma ensemble_spec_range: "0 \<le> ensemble_spec l ml t \<and> ensemble_spec l ml t \<le> 100"
  by (simp add: ensemble_spec_def)

text \<open>The final score of the specification is monotone in the ML score and in the local
  score and antitone in the header trust; so is the handler, in the exact arithmetic of
  the model, for header trusts other than 0.\<close>

lemma ensemble_spec_mono_ml:
  "m \<le> m' \<Longrightarrow> ensemble_spec l (Some m) t \<le> ensemble_spec l (Some m') t"
  unfolding ensemble_spec_def round_def
  by (intro max.mono min.mono order_refl floor_mono) simp

lemma ensemble_spec_mono_local: "l \<le> l' \<Longrightarrow> ensemble_spec l ml t \<le> ensemble_spec l' ml t"
  unfolding ensemble_spec_def round_def
  by (intro max.mono min.mono order_refl floor_mono) (cases ml; simp)

lemma ensemble_spec_antitone_trust:
  "t \<le> t' \<Longrightarrow> ensemble_spec l ml t' \<le> ensemble_spec l ml t"
  unfolding ensemble_spec_def round_def
  by (intro max.mono min.mono order_refl floor_mono) simp

lemma ensemble_mono_ml:
  "m \<le> m' \<Longrightarrow> js_le (ensemble (Fin l) (JNumber (Fin m)) t) (ensemble (Fin l) (JNumber (Fin m')) t)"
proof (cases "t = 0")
  case True
  assume "m \<le> m'"
  then show ?thesis
    unfolding True ensemble_zero_trust
    by (simp add: ensemble_number ensemble_spec_mono_ml)
next
  case False
  assume "m \<le> m'"
  with False show ?thesis
    by (simp add: ensemble_number ensemble_spec_mono_ml)
qed

lemma ensemble_mono_local:
  "l \<le> l' \<Longrightarrow> js_le (ensemble (Fin l) (JNumber (Fin m)) t) (ensemble (Fin l') (JNumber (Fin m)) t)"
proof (cases "t = 0")
  case True
  assume "l \<le> l'"
  then show ?thesis
    unfolding True ensemble_zero_trust
    by (simp add: ensemble_number ensemble_spec_mono_local)
next
  case False
  assume "l \<le> l'"
  with False show ?thesis
    by (simp add: ensemble_number ensemble_spec_mono_local)
qed

lemma ensemble_antitone_trust:
  "0 < t \<Longrightarrow> t \<le> t' \<Longrightarrow>
     js_le (ensemble (Fin l) (JNumber (Fin m)) t') (ensemble (Fin l) (JNumber (Fin m)) t)"
  by (simp add: ensemble_number ensemble_spec_antitone_trust)

text \<open>
  C1. The final score is the rounded and clamped weighted sum of the local score, the ML
  score and \<open>100 - headerTrust\<close>. The handler misses it when the header trust is 0:
  \<^verbatim>\<open>headerTrust || 50\<close> takes the suspicion from 50. A message that fails SPF, DKIM and
  DMARC and whose envelope domain differs from the domain of its sender has the header
  trust 0; with a local score of 80 and an ML score of 90 the handler answers 75, and the
  weighted sum is 85.
\<close>

theorem get_scores_zero_trust:
  "fst (get_scores
      \<lparr>pl_localScore = Some (Fin 80), pl_local = None, pl_fromText = ''PayPal''\<rparr>
      \<lparr>ml_reply = Returns (JNumber (Fin 90), JUndefined), gmail_token = Some ''token'',
       found_message = Returns (Some ''m1''),
       fetched_headers = Returns
         [(''Delivered-To'', ''me@example.com''),
          (''Return-Path'', ''<bounce@mailer.example>''),
          (''From'', ''PayPal <service@paypal.example>''),
          (''Authentication-Results'', ''mx.example.com; spf=fail; dkim=fail; dmarc=fail'')],
       trustedSenders = no_history,
       HEADER_CACHE = Map.empty, now_get = 0, now_set = 0\<rparr>)
   = \<lparr>ok = True, localScore = Fin 80, ml_score = Fin 90, headerTrust = 0, final_score = Fin 75\<rparr>
   \<and> ensemble_spec 80 (Some 90) 0 = 85"
  by code_simp

text \<open>
  C3. In the exact arithmetic of the model the final score is monotone in the ML score
  and in the local score (\<open>ensemble_mono_ml\<close>, \<open>ensemble_mono_local\<close>) and antitone in
  the header trust from 1 on (\<open>ensemble_antitone_trust\<close>). It is not antitone at 0: with
  both scores at 50, a header trust of 0 gives 48 and a header trust of 10 gives 56.
\<close>

theorem ensemble_trust_zero_below_ten:
  "ensemble (Fin 50) (JNumber (Fin 50)) 0 = Fin 48
   \<and> ensemble (Fin 50) (JNumber (Fin 50)) 10 = Fin 56"
  by code_simp

text \<open>When the token is missing, the search fails or finds nothing, or the headers cannot
  be fetched, the header trust is the neutral 50.\<close>

lemma header_trust_attempt_failure:
  assumes "\<not> truthy_str (gmail_token env) \<or> found_message env = Throws
           \<or> (\<exists>i. found_message env = Returns i \<and> \<not> truthy_str i)
           \<or> (\<exists>i. found_message env = Returns (Some i)
                  \<and> fst (cacheGet (HEADER_CACHE env) i (now_get env)) = None
                  \<and> fetched_headers env = Throws)"
  shows "fst (header_trust_attempt payload env) = 50"
  using assms unfolding header_trust_attempt_def
  by (auto split: outcome.splits prod.splits option.splits)

lemma mlVal_of_no_number: "(\<forall>n. ml \<noteq> JNumber n) \<Longrightarrow> mlVal_of l ml = l"
  by (cases ml) (simp_all add: mlVal_of_def)

text \<open>The backend is unreachable, or its reply holds no score.\<close>

lemma ml_unreachable: "ml_score_of Throws = JNull"
  by (simp add: ml_score_of_def)

lemma ml_no_score: "\<not> truthy a \<Longrightarrow> \<not> truthy b \<Longrightarrow> ml_score_of (Returns (a, b)) = JNull"
  by (simp add: ml_score_of_def)

text \<open>With a finite local score, an ML value that is not a number and a failed header
  lookup, the handler answers with the local score in place of the ML score, the header
  trust 50 and a final score in \<open>[0, 100]\<close>.\<close>

lemma get_scores_degrades:
  assumes l: "localScore_of payload = Fin l"
    and ml: "\<forall>n. ml_score_of (ml_reply env) \<noteq> JNumber n"
    and hdr: "\<not> truthy_str (gmail_token env) \<or> found_message env = Throws
           \<or> (\<exists>i. found_message env = Returns i \<and> \<not> truthy_str i)
           \<or> (\<exists>i. found_message env = Returns (Some i)
                  \<and> fst (cacheGet (HEADER_CACHE env) i (now_get env)) = None
                  \<and> fetched_headers env = Throws)"
  shows "fst (get_scores payload env) =
           \<lparr>ok = True, localScore = Fin l, ml_score = Fin l, headerTrust = 50,
            final_score = Fin (of_int (ensemble_spec l None 50))\<rparr>"
proof -
  have t: "fst (header_trust_attempt payload env) = 50"
    using hdr by (rule header_trust_attempt_failure)
  have e: "ensemble (Fin l) (ml_score_of (ml_reply env)) 50 = Fin (of_int (ensemble_spec l None 50))"
    using ml by (simp add: ensemble_no_number)
  show ?thesis
    unfolding get_scores_def Let_def
    using t e l mlVal_of_no_number[OF ml]
    by (simp add: split_beta)
qed

text \<open>
  C4. The handler answers every failure of a collaborator with a final score in
  \<open>[0, 100]\<close>, the local score in place of the ML score and the header trust 50
  (\<open>get_scores_degrades\<close>), but for one: a reply of the backend whose score is a text that
  is not a number. \<^verbatim>\<open>parseFloat\<close> makes it \<^verbatim>\<open>NaN\<close>, which passes
  \<^verbatim>\<open>typeof ml_score === "number"\<close>, and the final score is \<^verbatim>\<open>NaN\<close>.
\<close>

theorem get_scores_non_numeric_ml:
  "fst (get_scores
      \<lparr>pl_localScore = Some (Fin 80), pl_local = None, pl_fromText = ''A <a@b.example>''\<rparr>
      \<lparr>ml_reply = Returns (JString ''high'', JUndefined), gmail_token = None,
       found_message = Throws, fetched_headers = Throws, trustedSenders = no_history,
       HEADER_CACHE = Map.empty, now_get = 0, now_set = 0\<rparr>)
   = \<lparr>ok = True, localScore = Fin 80, ml_score = NaN, headerTrust = 50, final_score = NaN\<rparr>"
  by code_simp

section \<open>Sums of contributions\<close>

lemma fold_if_add:
  "fold (\<lambda>k sc. if P k then sc + c else sc) xs (s::int) = s + c * int (length (filter P xs))"
  by (induction xs arbitrary: s) (simp_all add: algebra_simps)

lemma fold_add_if:
  "fold (\<lambda>k sc. sc + (if P k then c else 0)) xs (s::int) = s + c * int (length (filter P xs))"
  by (induction xs arbitrary: s) (simp_all add: algebra_simps)

lemma if_add: "(if c then (s::int) + k else s) = s + (if c then k else 0)"
  by simp

section \<open>Link risk\<close>

lemma estimateLinkRisk_sum: "estimateLinkRisk url = min 100 (link_risk_sum url)"
  unfolding estimateLinkRisk_def link_risk_sum_def link_brands_def
  by (simp only: Let_def if_add fold_add_if add_0)

lemma link_risk_sum_nonneg: "0 \<le> link_risk_sum url"
  unfolding link_risk_sum_def
  by (intro add_nonneg_nonneg mult_nonneg_nonneg) simp_all

text \<open>
  C9, as the code has it. For every URL, \<^verbatim>\<open>estimateLinkRisk\<close> is the sum of the
  independent checks, capped at 100 and never below 0: 70 for a tunnel domain
  (\<^verbatim>\<open>ngrok-free.app\<close>, \<^verbatim>\<open>ngrok.io\<close>), 80 for a dotted quad, 90 for \<^verbatim>\<open>verify\<close> together
  with the brand \<^verbatim>\<open>google\<close> and with no other brand, 50 for \<^verbatim>\<open>login\<close>, \<^verbatim>\<open>reset\<close> or
  \<^verbatim>\<open>forgot\<close>, 30 for \<^verbatim>\<open>http://\<close>, and 60 for each of \<^verbatim>\<open>google\<close>, \<^verbatim>\<open>microsoft\<close>,
  \<^verbatim>\<open>paypal\<close> and \<^verbatim>\<open>facebook\<close> that occurs without its name between dots. It is a function
  of the URL alone.
\<close>

theorem estimateLinkRisk_additive:
  "estimateLinkRisk url = min 100 (link_risk_sum url)
   \<and> 0 \<le> estimateLinkRisk url \<and> estimateLinkRisk url \<le> 100"
  using link_risk_sum_nonneg[of url] by (simp add: estimateLinkRisk_sum)

text \<open>A link that passes every check; one link for each check alone; a brand on its own
  domain; two brands on a foreign host, where the cap applies.\<close>

theorem estimateLinkRisk_additive_witness:
  "estimateLinkRisk ''https://a.io/'' = 0
   \<and> estimateLinkRisk ''https://x.ngrok.io/'' = 70
   \<and> estimateLinkRisk ''https://10.0.0.1/'' = 80
   \<and> estimateLinkRisk ''https://www.google.com/verify'' = 90
   \<and> estimateLinkRisk ''https://a.io/login'' = 50
   \<and> estimateLinkRisk ''http://a.io/'' = 30
   \<and> estimateLinkRisk ''https://paypal.a.io/'' = 60
   \<and> estimateLinkRisk ''https://www.paypal.com/'' = 0
   \<and> link_risk_sum ''https://a.io/paypal/facebook'' = 120
   \<and> estimateLinkRisk ''https://a.io/paypal/facebook'' = 100"
proof -
  have v: "link_risk_sum ''https://a.io/'' = 0"
          "link_risk_sum ''https://x.ngrok.io/'' = 70"
          "link_risk_sum ''https://10.0.0.1/'' = 80"
          "link_risk_sum ''https://www.google.com/verify'' = 90"
          "link_risk_sum ''https://a.io/login'' = 50"
          "link_risk_sum ''http://a.io/'' = 30"
          "link_risk_sum ''https://paypal.a.io/'' = 60"
          "link_risk_sum ''https://www.paypal.com/'' = 0"
          "link_risk_sum ''https://a.io/paypal/facebook'' = 120"
    by code_simp+
  from v estimateLinkRisk_additive[of "''https://a.io/''"]
    estimateLinkRisk_additive[of "''https://x.ngrok.io/''"]
    estimateLinkRisk_additive[of "''https://10.0.0.1/''"]
    estimateLinkRisk_additive[of "''https://www.google.com/verify''"]
    estimateLinkRisk_additive[of "''https://a.io/login''"]
    estimateLinkRisk_additive[of "''http://a.io/''"]
    estimateLinkRisk_additive[of "''https://paypal.a.io/''"]
    estimateLinkRisk_additive[of "''https://www.paypal.com/''"]
    estimateLinkRisk_additive[of "''https://a.io/paypal/facebook''"]
  show ?thesis by simp
qed

text \<open>A link with \<^verbatim>\<open>verify\<close> and the brand \<^verbatim>\<open>paypal\<close> scores the 60 of the brand alone;
  with 90 for \<^verbatim>\<open>verify\<close> together with any brand the sum would reach the cap.\<close>

theorem estimateLinkRisk_verify_brand_counterexample:
  "estimateLinkRisk ''https://paypal-verify.example/'' = 60
   \<and> min 100 (link_risk_sum_any_brand ''https://paypal-verify.example/'') = 100"
  by code_simp

section \<open>The gate of a clicked link\<close>

text \<open>
  C5, as the code has it. The click handler shows the popup, and does not follow the
  link, whenever the URL matches a suspicious pattern or the combined risk is above 60;
  otherwise it follows the link. The popup classes the quick risk of the link \<^verbatim>\<open>high\<close>
  above 70, \<^verbatim>\<open>medium\<close> above 40 and up to 70, and \<^verbatim>\<open>low\<close> up to 40.
\<close>

theorem link_click_gate:
  "(isSuspiciousUrl url \<longrightarrow> link_click url e = Popup (quick_assessment (estimateLinkRisk url)))
   \<and> (60 < (if e > 0 then max (estimateLinkRisk url) e else estimateLinkRisk url)
        \<longrightarrow> link_click url e = Popup (quick_assessment (estimateLinkRisk url)))
   \<and> (\<not> isSuspiciousUrl url
        \<and> (if e > 0 then max (estimateLinkRisk url) e else estimateLinkRisk url) \<le> 60
        \<longrightarrow> link_click url e = Navigate)
   \<and> (70 < q \<longrightarrow> quick_assessment q = high)
   \<and> (40 < q \<and> q \<le> 70 \<longrightarrow> quick_assessment q = medium)
   \<and> (q \<le> 40 \<longrightarrow> quick_assessment q = low)"
  by (simp add: link_click_def click_gate_def quick_assessment_def Let_def)

text \<open>A link to a raw address; a plain link in a message of risk 65, and in one of
  risk 50.\<close>

theorem link_click_gate_witness:
  "isSuspiciousUrl ''http://10.0.0.1/''
   \<and> link_click ''http://10.0.0.1/'' 0 = Popup high
   \<and> \<not> isSuspiciousUrl ''https://a.io/''
   \<and> link_click ''https://a.io/'' 65 = Popup low
   \<and> link_click ''https://a.io/'' 50 = Navigate
   \<and> quick_assessment 71 = high \<and> quick_assessment 70 = medium \<and> quick_assessment 40 = low"
proof -
  have s: "isSuspiciousUrl ''http://10.0.0.1/''" "\<not> isSuspiciousUrl ''https://a.io/''"
    by code_simp+
  have r: "estimateLinkRisk ''http://10.0.0.1/'' = 100" "estimateLinkRisk ''https://a.io/'' = 0"
    by code_simp+
  have 1: "link_click ''http://10.0.0.1/'' 0 = Popup high"
    using s r link_click_gate[of "''http://10.0.0.1/''" 0 100] by simp
  have 2: "link_click ''https://a.io/'' 65 = Popup low"
    using s r link_click_gate[of "''https://a.io/''" 65 0] by simp
  have 3: "link_click ''https://a.io/'' 50 = Navigate"
    using s r link_click_gate[of "''https://a.io/''" 50 0] by simp
  have 4: "quick_assessment 71 = high" "quick_assessment 70 = medium" "quick_assessment 40 = low"
    using link_click_gate[of "[]" 0 71] link_click_gate[of "[]" 0 70] link_click_gate[of "[]" 0 40]
    by simp_all
  from s 1 2 3 4 show ?thesis by simp
qed

text \<open>A score of 50 without a pattern match lies in the warn tier of the specification;
  the handler follows the link.\<close>

theorem link_click_fifty_counterexample:
  "\<not> click_gate False 50 \<and> link_click ''https://example.com/'' 50 = Navigate"
  by code_simp

section \<open>Local heuristic scoring\<close>






















end
